theory Spec2Isabelle
  imports Main "HOL-Library.Sublist"
begin

section \<open>Python strings and integers\<close>

text \<open>
  The script \<^verbatim>\<open>scripts/pyarrow_inspect.py\<close> works on Python strings and unbounded
  integers. Strings are modelled as \<^typ>\<open>string\<close> (byte strings); the case mappings
  below act on the ASCII letters only, which is what Python's \<^verbatim>\<open>str.lower\<close>,
  \<^verbatim>\<open>str.upper\<close> and \<^verbatim>\<open>str.capitalize\<close> do on ASCII text (Python also maps
  letters outside ASCII, which the model leaves as they are). Integers are
  \<^typ>\<open>int\<close>.
\<close>

definition digit_char :: "nat \<Rightarrow> char" where
  "digit_char d = ''0123456789'' ! d"

text \<open>\<^verbatim>\<open>str(n)\<close> for a natural number: the decimal digits, most significant first.\<close>

fun str_nat :: "nat \<Rightarrow> string" where
  "str_nat n =
     (if n < 10 then [digit_char n] else str_nat (n div 10) @ [digit_char (n mod 10)])"

declare str_nat.simps [simp del]

text \<open>\<^verbatim>\<open>str(i)\<close> for a Python integer.\<close>

definition str_int :: "int \<Rightarrow> string" where
  "str_int i = (if i < 0 then CHR ''-'' # str_nat (nat (- i)) else str_nat (nat i))"

definition lower_char :: "char \<Rightarrow> char" where
  "lower_char c =
     (case map_of (zip ''ABCDEFGHIJKLMNOPQRSTUVWXYZ'' ''abcdefghijklmnopqrstuvwxyz'') c of
        Some d \<Rightarrow> d
      | None \<Rightarrow> c)"

definition upper_char :: "char \<Rightarrow> char" where
  "upper_char c =
     (case map_of (zip ''abcdefghijklmnopqrstuvwxyz'' ''ABCDEFGHIJKLMNOPQRSTUVWXYZ'') c of
        Some d \<Rightarrow> d
      | None \<Rightarrow> c)"

text \<open>\<^verbatim>\<open>s.lower()\<close>\<close>

definition lower :: "string \<Rightarrow> string" where
  "lower s = map lower_char s"

text \<open>\<^verbatim>\<open>s.capitalize()\<close>: the first character upper-cased, the rest lower-cased.\<close>

fun capitalize :: "string \<Rightarrow> string" where
  "capitalize [] = []"
| "capitalize (c # cs) = upper_char c # map lower_char cs"

text \<open>
  \<^verbatim>\<open>s.split(sep)\<close> for a one-character separator: the pieces between the
  separators, empty pieces kept; the result is never empty.
\<close>

fun split :: "char \<Rightarrow> string \<Rightarrow> string list" where
  "split sep [] = [[]]"
| "split sep (c # cs) =
     (if c = sep then [] # split sep cs
      else (case split sep cs of
              [] \<Rightarrow> [[c]]
            | w # ws \<Rightarrow> (c # w) # ws))"

text \<open>
  \<^verbatim>\<open>s.replace(old, new)\<close>: every occurrence of \<open>old\<close>, found left to right without
  overlap, is replaced by \<open>new\<close>. (With an empty \<open>old\<close> Python puts \<open>new\<close> before every
  character and at the end.)
\<close>

fun replace_from :: "string \<Rightarrow> string \<Rightarrow> nat \<Rightarrow> string \<Rightarrow> string" where
  "replace_from old new skip [] = []"
| "replace_from old new (Suc k) (c # cs) = replace_from old new k cs"
| "replace_from old new 0 (c # cs) =
     (if prefix old (c # cs) then new @ replace_from old new (length old - 1) cs
      else c # replace_from old new 0 cs)"

definition replace :: "string \<Rightarrow> string \<Rightarrow> string \<Rightarrow> string" where
  "replace old new s =
     (if old = [] then new @ concat (map (\<lambda>c. c # new) s)
      else replace_from old new 0 s)"

text \<open>\<^verbatim>\<open>key in s\<close> on strings: \<open>key\<close> occurs in \<open>s\<close> as a contiguous substring.\<close>

fun py_in :: "string \<Rightarrow> string \<Rightarrow> bool" where
  "py_in key [] = (key = [])"
| "py_in key (c # cs) = (prefix key (c # cs) \<or> py_in key cs)"

section \<open>Python values\<close>

text \<open>
  The values \<^verbatim>\<open>to_pylist()\<close> hands to the script. A float is carried by its default
  rendering \<^verbatim>\<open>str(val)\<close>, and a value of any other type (bytes, dates, decimals,
  lists, ...) by its \<^verbatim>\<open>str(val)\<close> as well: the script only ever formats them.
  \<^verbatim>\<open>bool\<close> is a constructor of its own, tested before \<^verbatim>\<open>int\<close> as in the source.
\<close>

datatype pyval =
    PNone
  | PStr string
  | PBool bool
  | PInt int
  | PFloat string
  | PObj string

text \<open>\<^verbatim>\<open>format_value(val)\<close>: format a value for Java code.\<close>

fun format_value :: "pyval \<Rightarrow> string" where
  "format_value PNone = ''null''"
| "format_value (PStr s) = [CHR 0x22] @ s @ [CHR 0x22]"
| "format_value (PBool b) = (if b then ''true'' else ''false'')"
| "format_value (PInt val) = (if val > 2147483647 then str_int val @ ''L'' else str_int val)"
| "format_value (PFloat r) = r"
| "format_value (PObj s) = [CHR 0x22] @ s @ [CHR 0x22]"

text \<open>
  \<^verbatim>\<open>python_to_java_type(pyarrow_type)\<close>. The dictionary \<^verbatim>\<open>type_map\<close> is iterated in
  insertion order, so it is an association list; the loop returns at the first key found
  in the lower-cased type name.
\<close>

definition type_map :: "(string \<times> string) list" where
  "type_map =
     [(''int32'', ''Integer''),
      (''int64'', ''Long''),
      (''float'', ''Float''),
      (''double'', ''Double''),
      (''string'', ''String''),
      (''binary'', ''String''),
      (''bool'', ''Boolean'')]"

fun type_loop :: "(string \<times> string) list \<Rightarrow> string \<Rightarrow> string" where
  "type_loop [] pyarrow_type = ''Object''"
| "type_loop ((key, val) # items) pyarrow_type =
     (if py_in key (lower pyarrow_type) then val else type_loop items pyarrow_type)"

definition python_to_java_type :: "string \<Rightarrow> string" where
  "python_to_java_type pyarrow_type = type_loop type_map pyarrow_type"

text \<open>
  The lookup as the specification words it: the target of the first entry of the table
  whose key occurs as a substring of the given name, and \<^verbatim>\<open>Object\<close> when there is none.
\<close>

definition first_substring_match :: "string \<Rightarrow> string" where
  "first_substring_match name =
     (case List.find (\<lambda>entry. sublist (fst entry) name) type_map of
        Some entry \<Rightarrow> snd entry
      | None \<Rightarrow> ''Object'')"

section \<open>Tables and exceptions\<close>

text \<open>
  What the script reads of a loaded table. A column has its name, the text of its type
  (\<^verbatim>\<open>str(col.type)\<close>) and its values (\<^verbatim>\<open>col.to_pylist()\<close>, nulls being
  \<^verbatim>\<open>None\<close>); a table has its row count (\<^verbatim>\<open>len(table)\<close>) and its columns in
  schema order.
\<close>

record column =
  col_name :: string
  col_type :: string
  col_values :: "pyval list"

record table =
  num_rows :: nat
  columns :: "column list"

text \<open>
  The exceptions of a run. \<^verbatim>\<open>FileNotFoundError\<close> and \<^verbatim>\<open>OtherError\<close> (any other
  subclass of \<^verbatim>\<open>Exception\<close> the library raises) carry their message,
  \<^verbatim>\<open>KeyError\<close> the column name it was raised for, \<^verbatim>\<open>ValueError\<close> the text that
  is no integer.
\<close>

datatype exc =
    FileNotFoundError string
  | KeyError string
  | IndexError
  | ValueError string
  | OtherError string

text \<open>\<^verbatim>\<open>table.column_names\<close>\<close>

definition column_names :: "table \<Rightarrow> string list" where
  "column_names t = map col_name (columns t)"

text \<open>
  \<^verbatim>\<open>table.column(name)\<close>: the column of that name. The library raises
  \<^verbatim>\<open>KeyError\<close> when no field or more than one field of the schema has the name.
\<close>

definition table_column :: "table \<Rightarrow> string \<Rightarrow> exc + column" where
  "table_column t name =
     (case filter (\<lambda>c. col_name c = name) (columns t) of
        [c] \<Rightarrow> Inr c
      | _ \<Rightarrow> Inl (KeyError name))"

section \<open>The test template\<close>

text \<open>
  \<^verbatim>\<open>file_path.split('/')[-1]\<close> and the test name,
  \<^verbatim>\<open>''.join(word.capitalize() for word in file_name.replace('.parquet', '').split('_'))\<close>.
\<close>

definition file_name_of :: "string \<Rightarrow> string" where
  "file_name_of file_path = last (split CHR ''/'' file_path)"

definition test_name_of :: "string \<Rightarrow> string" where
  "test_name_of file_name =
     concat (map capitalize (split CHR ''_'' (replace ''.parquet'' [] file_name)))"

text \<open>The opening f-string of the template, line by line.\<close>

definition template_head :: "string \<Rightarrow> string \<Rightarrow> table \<Rightarrow> string" where
  \<open>template_head test_name file_name t =
     ''\<newline>'' @
     ''@Test\<newline>'' @
     ''void test'' @ test_name @ ''() throws IOException {\<newline>'' @
     ''    String filePath = TEST_DATA_DIR + "'' @ file_name @ ''";\<newline>'' @
     ''\<newline>'' @
     ''    try (ParquetFileReader reader = new ParquetFileReader(filePath)) {\<newline>'' @
     ''        RowColumnGroupIterator iterator = reader.rowIterator();\<newline>'' @
     ''\<newline>'' @
     ''        // Expected row count\<newline>'' @
     ''        assertEquals('' @ str_nat (num_rows t) @ ''L, reader.getTotalRowCount());\<newline>'' @
     ''\<newline>'' @
     ''        // Expected columns\<newline>'' @
     ''        assertEquals('' @ str_nat (length (column_names t)) @
         '', reader.getSchema().getNumColumns());\<newline>''\<close>

definition column_assertion :: "string \<Rightarrow> nat \<Rightarrow> string" where
  \<open>column_assertion name i =
     ''        assertEquals("'' @ name @ ''", reader.getSchema().getColumn('' @ str_nat i @
       '').getPathString());\<newline>''\<close>

text \<open>
  The loop \<^verbatim>\<open>for i, col_name in enumerate(table.column_names)\<close> that adds the column
  assertions. It looks the column up and computes \<^verbatim>\<open>java_type\<close>, which the line it
  adds does not use.
\<close>

fun column_assertions :: "table \<Rightarrow> nat \<Rightarrow> string list \<Rightarrow> exc + string" where
  "column_assertions t i [] = Inr []"
| "column_assertions t i (name # names) =
     (case table_column t name of
        Inl e \<Rightarrow> Inl e
      | Inr col \<Rightarrow>
          (let java_type = python_to_java_type (col_type col) in
           case column_assertions t (Suc i) names of
             Inl e \<Rightarrow> Inl e
           | Inr rest \<Rightarrow> Inr (column_assertion name i @ rest)))"

text \<open>
  \<^verbatim>\<open>values = [table.column(col_name).to_pylist() for col_name in table.column_names]\<close>
\<close>

fun column_lists :: "table \<Rightarrow> string list \<Rightarrow> exc + pyval list list" where
  "column_lists t [] = Inr []"
| "column_lists t (name # names) =
     (case table_column t name of
        Inl e \<Rightarrow> Inl e
      | Inr col \<Rightarrow>
          (case column_lists t names of
             Inl e \<Rightarrow> Inl e
           | Inr rest \<Rightarrow> Inr (col_values col # rest)))"

definition first_row_head :: string where
  \<open>first_row_head =
     ''\<newline>'' @
     ''        // Verify first row values\<newline>'' @
     ''        assertTrue(iterator.hasNext());\<newline>'' @
     ''        RowColumnGroup firstRow = iterator.next();\<newline>''\<close>

definition value_assertion :: "pyval \<Rightarrow> nat \<Rightarrow> string" where
  \<open>value_assertion val i =
     ''        assertEquals('' @ format_value val @ '', firstRow.getColumnValue('' @ str_nat i @
       ''));\<newline>''\<close>

text \<open>
  The loop over the first row: \<^verbatim>\<open>val = values[i][0]\<close> for every column index
  \<open>i\<close>, in order (\<^verbatim>\<open>values\<close> has one entry per column name). Reading the first
  value of an empty list raises \<^verbatim>\<open>IndexError\<close>.
\<close>

fun first_row_assertions :: "nat \<Rightarrow> pyval list list \<Rightarrow> exc + string" where
  "first_row_assertions i [] = Inr []"
| "first_row_assertions i (vals # rest) =
     (case vals of
        [] \<Rightarrow> Inl IndexError
      | val # _ \<Rightarrow>
          (case first_row_assertions (Suc i) rest of
             Inl e \<Rightarrow> Inl e
           | Inr others \<Rightarrow> Inr (value_assertion val i @ others)))"

definition template_tail :: string where
  \<open>template_tail = ''    }\<newline>'' @ ''}\<newline>''\<close>

text \<open>\<^verbatim>\<open>generate_junit_template(file_path, table)\<close>\<close>

definition generate_junit_template :: "string \<Rightarrow> table \<Rightarrow> exc + string" where
  "generate_junit_template file_path t =
     (let file_name = file_name_of file_path;
          test_name = test_name_of file_name;
          template = template_head test_name file_name t
      in case column_assertions t 0 (column_names t) of
           Inl e \<Rightarrow> Inl e
         | Inr cols \<Rightarrow>
             (case column_lists t (column_names t) of
                Inl e \<Rightarrow> Inl e
              | Inr values \<Rightarrow>
                  (if num_rows t > 0 then
                     (case first_row_assertions 0 values of
                        Inl e \<Rightarrow> Inl e
                      | Inr first \<Rightarrow>
                          Inr (template @ cols @ first_row_head @ first @ template_tail))
                   else Inr (template @ cols @ template_tail))))"

section \<open>The report\<close>

text \<open>
  What a run prints, one item per \<^verbatim>\<open>print\<close> call, in order. A line whose text the
  script builds itself is \<open>Text\<close>. Where the text is rendered by Python or by the
  library from a value (a list of values, a data frame, a minimum, a float average, an
  exception), the item carries that value: \<open>First_values n vs\<close> is the line
  \<^verbatim>\<open>First {n} values: {vs}\<close>, \<open>Last_values vs\<close> the line
  \<^verbatim>\<open>Last 5 values: {vs}\<close>, \<open>Min_of vs\<close>, \<open>Max_of vs\<close> and \<open>Average_of vs\<close> the lines
  \<^verbatim>\<open>Min: {min(vs)}\<close>, \<^verbatim>\<open>Max: {max(vs)}\<close> and
  \<^verbatim>\<open>Average: {sum(vs) / len(vs):.2f}\<close>, \<open>Frame rows\<close> is \<^verbatim>\<open>print(df)\<close> for
  the frame of these rows, \<open>Error_inspecting e\<close> the line
  \<^verbatim>\<open>Error inspecting file: {e}\<close> and \<open>Traceback e\<close> the trace Python writes for
  \<open>e\<close>.
\<close>

datatype out =
    Text string
  | Min_of "pyval list"
  | Max_of "pyval list"
  | Average_of "pyval list"
  | First_values nat "pyval list"
  | Last_values "pyval list"
  | Frame "pyval list list"
  | Error_inspecting exc
  | Traceback exc

text \<open>\<^verbatim>\<open>str(v)\<close> of a value, as the unique-value count uses it.\<close>

fun py_str :: "pyval \<Rightarrow> string" where
  "py_str PNone = ''None''"
| "py_str (PStr s) = s"
| "py_str (PBool b) = (if b then ''True'' else ''False'')"
| "py_str (PInt i) = str_int i"
| "py_str (PFloat r) = r"
| "py_str (PObj s) = s"

text \<open>
  The body of the loop over the columns of \<^verbatim>\<open>inspect_parquet\<close>, for the column
  \<open>col\<close> found under \<open>name\<close> at index \<open>i\<close>.
\<close>

definition column_summary :: "nat \<Rightarrow> string \<Rightarrow> column \<Rightarrow> out list" where
  "column_summary i name col =
     (let values = col_values col in
      [Text (''\<newline>'' @ ''Column '' @ str_nat i @ '': '' @ [CHR 0x27] @ name @ [CHR 0x27]),
       Text (''  Type: '' @ col_type col),
       Text (''  Length: '' @ str_nat (length values)),
       Text (''  Null count: '' @ str_nat (length (filter (\<lambda>v. v = PNone) values)))] @
      (if length values > 0 then
         (let unique_count =
                length (remdups (map py_str (filter (\<lambda>v. v \<noteq> PNone) values)))
          in [Text (''  Unique values: '' @ str_nat unique_count)]) @
         (if col_type col \<in> set [''int32'', ''int64'', ''float'', ''double''] then
            (let non_null_values = filter (\<lambda>v. v \<noteq> PNone) values in
             if non_null_values \<noteq> [] then
               [Min_of non_null_values, Max_of non_null_values] @
               (if length non_null_values > 1 then [Average_of non_null_values] else [])
             else [])
          else []) @
         [First_values (min 5 (length values)) (take 5 values)] @
         (if length values > 10 then [Last_values (drop (length values - 5) values)] else [])
       else []))"

text \<open>
  The loop \<^verbatim>\<open>for i, col_name in enumerate(table.column_names)\<close>: what it prints, and
  the exception that ended it, if any.
\<close>

fun column_details :: "table \<Rightarrow> nat \<Rightarrow> string list \<Rightarrow> out list \<times> exc option" where
  "column_details t i [] = ([], None)"
| "column_details t i (name # names) =
     (case table_column t name of
        Inl e \<Rightarrow> ([], Some e)
      | Inr col \<Rightarrow>
          (case column_details t (Suc i) names of
             (rest, r) \<Rightarrow> (column_summary i name col @ rest, r)))"

text \<open>
  \<^verbatim>\<open>table.to_pandas()\<close>: the frame of the table's rows, one per row of the table and
  in the table's order. The cells are kept as the table's Python values; the library
  converts some of them (a null becomes \<^verbatim>\<open>NaN\<close>, a nullable integer column a float
  column), which changes how a row is rendered, not which rows a frame holds.
  \<^verbatim>\<open>df.head(n)\<close> and \<^verbatim>\<open>df.tail(n)\<close> are the library's: the first (last) \<open>n\<close> rows,
  and for a negative \<open>n\<close> all rows but the last (first) \<open>|n|\<close>.
\<close>

definition to_pandas :: "table \<Rightarrow> pyval list list" where
  "to_pandas t = map (\<lambda>r. map (\<lambda>c. col_values c ! r) (columns t)) [0..<num_rows t]"

definition df_head :: "int \<Rightarrow> 'a list \<Rightarrow> 'a list" where
  "df_head n rows =
     (if 0 \<le> n then take (nat n) rows else take (length rows - nat (- n)) rows)"

definition df_tail :: "int \<Rightarrow> 'a list \<Rightarrow> 'a list" where
  "df_tail n rows =
     (if n = 0 then []
      else if 0 < n then drop (length rows - nat n) rows
      else drop (nat (- n)) rows)"

text \<open>The data preview of \<^verbatim>\<open>inspect_parquet\<close>; \<^verbatim>\<open>//\<close> is floor division.\<close>

definition data_preview :: "pyval list list \<Rightarrow> int \<Rightarrow> out list" where
  "data_preview df max_rows =
     (if int (length df) \<le> max_rows then [Frame df]
      else
        [Text (''Showing first '' @ str_int (max_rows div 2) @ '' and last '' @
               str_int (max_rows div 2) @ '' rows:\<newline>''),
         Frame (df_head (max_rows div 2) df),
         Text ''...'',
         Frame (df_tail (max_rows div 2) df)])"

text \<open>
  What the script reads of an opened file: the text of the schema, the file metadata,
  the metadata of the row groups (\<^verbatim>\<open>num_row_groups\<close> is their number) and the table.
\<close>

record row_group =
  rg_num_rows :: nat
  rg_num_columns :: nat
  rg_total_byte_size :: nat

record parquet_file =
  schema_text :: string
  created_by :: string
  format_version :: string
  serialized_size :: nat
  row_groups :: "row_group list"
  file_table :: table

definition row_group_lines :: "nat \<Rightarrow> row_group \<Rightarrow> out list" where
  "row_group_lines i rg =
     [Text (''  Row Group '' @ str_nat i @ '':''),
      Text (''    Rows: '' @ str_nat (rg_num_rows rg)),
      Text (''    Columns: '' @ str_nat (rg_num_columns rg)),
      Text (''    Total byte size: '' @ str_nat (rg_total_byte_size rg))]"

definition banner :: "string \<Rightarrow> out list" where
  "banner file_path =
     [Text (replicate 80 CHR ''=''),
      Text (''PARQUET FILE INSPECTION: '' @ file_path),
      Text (replicate 80 CHR ''='')]"

definition metadata_lines :: "parquet_file \<Rightarrow> out list" where
  "metadata_lines pf =
     [Text (''\<newline>'' @ ''### SCHEMA ###''),
      Text (schema_text pf),
      Text (''\<newline>'' @ ''### METADATA ###''),
      Text (''Number of row groups: '' @ str_nat (length (row_groups pf))),
      Text (''Number of rows: '' @ str_nat (num_rows (file_table pf))),
      Text (''Number of columns: '' @ str_nat (length (column_names (file_table pf)))),
      Text (''\<newline>'' @ ''File metadata:''),
      Text (''  Created by: '' @ created_by pf),
      Text (''  Format version: '' @ format_version pf),
      Text (''  Serialized size: '' @ str_nat (serialized_size pf) @ '' bytes''),
      Text (''\<newline>'' @ ''Row Groups:'')] @
     concat (map (\<lambda>(i, rg). row_group_lines i rg) (enumerate 0 (row_groups pf)))"

text \<open>
  \<^verbatim>\<open>inspect_parquet(file_path, max_rows)\<close>. The file system is the function \<open>fs\<close>:
  opening and reading \<open>file_path\<close> gives the file or raises. The result is what was
  printed and the exception that ended the call, if any.
\<close>

definition inspect_parquet ::
  "(string \<Rightarrow> exc + parquet_file) \<Rightarrow> string \<Rightarrow> int \<Rightarrow> out list \<times> exc option" where
  "inspect_parquet fs file_path max_rows =
     (case fs file_path of
        Inl e \<Rightarrow> (banner file_path, Some e)
      | Inr pf \<Rightarrow>
          (let t = file_table pf;
               printed = banner file_path @ metadata_lines pf @
                 [Text (''\<newline>'' @ ''### COLUMN DETAILS ###'')]
           in case column_details t 0 (column_names t) of
                (details, Some e) \<Rightarrow> (printed @ details, Some e)
              | (details, None) \<Rightarrow>
                  (let printed = printed @ details @
                         [Text (''\<newline>'' @ ''### DATA PREVIEW ###'')] @
                         data_preview (to_pandas t) max_rows @
                         [Text (''\<newline>'' @ ''### JUNIT TEST TEMPLATE ###'')]
                   in case generate_junit_template file_path t of
                        Inl e \<Rightarrow> (printed, Some e)
                      | Inr template \<Rightarrow>
                          (printed @ [Text template, Text (''\<newline>'' @ replicate 80 CHR ''='')],
                           None))))"

section \<open>The command line\<close>

text \<open>The module's docstring, \<^verbatim>\<open>__doc__\<close>.\<close>

definition doc :: string where
  \<open>doc =
     ''\<newline>'' @
     ''Quick Parquet file inspector using PyArrow\<newline>'' @
     ''\<newline>'' @
     ''Usage:\<newline>'' @
     ''    python3 pyarrow_inspect.py <parquet_file>\<newline>'' @
     ''\<newline>'' @
     ''Example:\<newline>'' @
     ''    python3 pyarrow_inspect.py src/test/data/lz4_raw_compressed.parquet\<newline>''\<close>

text \<open>
  The main block: \<open>argv\<close> is \<^verbatim>\<open>sys.argv\<close>, \<open>to_int\<close> is Python's \<^verbatim>\<open>int\<close> on a
  string (it raises \<^verbatim>\<open>ValueError\<close> on a text that is no integer). The result is what
  was printed and the exit status of the process: 1 after \<^verbatim>\<open>sys.exit(1)\<close> and after
  an exception nothing catches, 0 when the block runs to its end.
\<close>

definition main ::
  "(string \<Rightarrow> exc + int) \<Rightarrow> (string \<Rightarrow> exc + parquet_file) \<Rightarrow> string list \<Rightarrow> out list \<times> nat"
  where
  "main to_int fs argv =
     (if length argv < 2 then ([Text doc], 1)
      else
        (let file_path = argv ! 1 in
         case (if length argv > 2 then to_int (argv ! 2) else Inr 20) of
           Inl e \<Rightarrow> ([Traceback e], 1)
         | Inr max_rows \<Rightarrow>
             (case inspect_parquet fs file_path max_rows of
                (printed, None) \<Rightarrow> (printed, 0)
              | (printed, Some (FileNotFoundError m)) \<Rightarrow>
                  (printed @ [Text (''Error: File not found: '' @ file_path)], 1)
              | (printed, Some e) \<Rightarrow>
                  (printed @ [Error_inspecting e, Traceback e], 1))))"

section \<open>Notions used in the proofs\<close>

text \<open>
  What the template reads of a column: its name and its first value as formatted (no
  value for an empty column); and the relation of two value lists whose first values are
  formatted alike.
\<close>

definition first_row_key :: "column \<Rightarrow> string \<times> string list" where
  "first_row_key c = (col_name c, map format_value (take 1 (col_values c)))"

definition same_first :: "pyval list \<Rightarrow> pyval list \<Rightarrow> bool" where
  "same_first v1 v2 \<longleftrightarrow> map format_value (take 1 v1) = map format_value (take 1 v2)"

section \<open>Properties of the string helpers\<close>

lemma py_in_sublist: "py_in key s \<longleftrightarrow> sublist key s"
  by (induction s) (auto simp: sublist_Cons_right)

lemma type_loop_find:
  "type_loop items ty =
     (case List.find (\<lambda>entry. sublist (fst entry) (lower ty)) items of
        Some entry \<Rightarrow> snd entry
      | None \<Rightarrow> ''Object'')"
  by (induction items ty rule: type_loop.induct) (simp_all add: py_in_sublist)

lemmas str_eval = str_int_def str_nat.simps digit_char_def

section \<open>Value literals\<close>

text \<open>
  C7 (the integer case of \<^verbatim>\<open>format_value\<close>). The suffix \<^verbatim>\<open>L\<close> is given above
  \<^verbatim>\<open>2147483647\<close> only: an integer below the least 32-bit value, here
  \<^verbatim>\<open>-2147483649\<close>, is rendered as a plain decimal literal, with no suffix.
\<close>

theorem format_value_below_int32:
  "format_value (PInt (- 2147483649)) = ''-2147483649''"
  by (simp add: str_eval)

section \<open>The type table\<close>

text \<open>
  C8, as worded, fails on a name with upper-case letters: no key of the table
  occurs in \<^verbatim>\<open>INT32\<close>, so the worded lookup gives \<^verbatim>\<open>Object\<close>, while the
  function, which lower-cases the name first, gives \<^verbatim>\<open>Integer\<close>.
\<close>

theorem python_to_java_type_upper_case:
  "python_to_java_type ''INT32'' = ''Integer'' \<and> first_substring_match ''INT32'' = ''Object''"
  by (simp add: python_to_java_type_def type_map_def first_substring_match_def
      lower_def lower_char_def py_in_sublist [symmetric])

text \<open>
  C8, amended: for every type-name string, \<^verbatim>\<open>python_to_java_type\<close> returns the target of
  the first entry, in the fixed order int32, int64, float, double, string, binary, bool,
  whose key occurs as a substring of the lower-cased type name, and \<^verbatim>\<open>Object\<close> when
  no key occurs in it.
\<close>

theorem python_to_java_type_first_match:
  "python_to_java_type name = first_substring_match (lower name)
   \<and> type_map =
       [(''int32'', ''Integer''), (''int64'', ''Long''), (''float'', ''Float''),
        (''double'', ''Double''), (''string'', ''String''), (''binary'', ''String''),
        (''bool'', ''Boolean'')]"
  by (simp add: python_to_java_type_def first_substring_match_def type_loop_find)
    (simp add: type_map_def)

section \<open>The template of the sample file\<close>




section \<open>The template does not read the column types\<close>

lemma filter_by_name_key:
  assumes "map first_row_key cs1 = map first_row_key cs2"
  shows "map first_row_key (filter (\<lambda>c. col_name c = n) cs1) =
         map first_row_key (filter (\<lambda>c. col_name c = n) cs2)"
proof -
  have "\<And>cs. map first_row_key (filter (\<lambda>c. col_name c = n) cs) =
      filter (\<lambda>p. fst p = n) (map first_row_key cs)"
    by (simp add: filter_map o_def first_row_key_def)
  with assms show ?thesis by simp
qed

lemma table_column_related:
  assumes "map first_row_key (columns t1) = map first_row_key (columns t2)"
  shows "rel_sum (=) (\<lambda>c1 c2. first_row_key c1 = first_row_key c2)
           (table_column t1 n) (table_column t2 n)"
proof -
  let ?f1 = "filter (\<lambda>c. col_name c = n) (columns t1)"
  let ?f2 = "filter (\<lambda>c. col_name c = n) (columns t2)"
  have eq: "map first_row_key ?f1 = map first_row_key ?f2"
    using assms by (rule filter_by_name_key)
  show ?thesis
  proof (cases ?f1)
    case Nil
    with eq have "?f2 = []" by simp
    with Nil show ?thesis by (simp add: table_column_def)
  next
    case (Cons c1 r1)
    with eq obtain c2 r2 where f2: "?f2 = c2 # r2"
      and k: "first_row_key c1 = first_row_key c2"
      and r: "map first_row_key r1 = map first_row_key r2"
      by (cases ?f2) auto
    show ?thesis
    proof (cases r1)
      case Nil
      with r have "r2 = []" by simp
      with Nil Cons f2 k show ?thesis by (simp add: table_column_def)
    next
      case (Cons a as)
      with r obtain b bs where "r2 = b # bs" by (cases r2) auto
      with Cons \<open>?f1 = c1 # r1\<close> f2 show ?thesis by (simp add: table_column_def)
    qed
  qed
qed

lemma column_assertions_names_only:
  assumes "map first_row_key (columns t1) = map first_row_key (columns t2)"
  shows "column_assertions t1 i ns = column_assertions t2 i ns"
proof (induction ns arbitrary: i)
  case Nil
  show ?case by simp
next
  case (Cons n ns)
  from table_column_related [OF assms, of n] Cons.IH [of "Suc i"]
  show ?case
    by (cases "table_column t1 n"; cases "table_column t2 n") (simp_all add: Let_def)
qed

lemma column_lists_related:
  assumes "map first_row_key (columns t1) = map first_row_key (columns t2)"
  shows "rel_sum (=) (list_all2 same_first) (column_lists t1 ns) (column_lists t2 ns)"
proof (induction ns)
  case Nil
  show ?case by simp
next
  case (Cons n ns)
  from table_column_related [OF assms, of n] Cons.IH
  show ?case
    by (cases "table_column t1 n"; cases "table_column t2 n";
        cases "column_lists t1 ns"; cases "column_lists t2 ns")
      (simp_all add: first_row_key_def same_first_def)
qed

lemma value_assertion_formatted:
  "format_value v1 = format_value v2 \<Longrightarrow> value_assertion v1 i = value_assertion v2 i"
  by (simp add: value_assertion_def)

lemma first_row_assertions_formatted:
  assumes "list_all2 same_first vs1 vs2"
  shows "first_row_assertions i vs1 = first_row_assertions i vs2"
  using assms
proof (induction vs1 vs2 arbitrary: i rule: list_all2_induct)
  case Nil
  show ?case by simp
next
  case (Cons v1 vs1 v2 vs2)
  have IH: "first_row_assertions (Suc i) vs1 = first_row_assertions (Suc i) vs2"
    by (rule Cons.IH)
  show ?case
  proof (cases v1)
    case Nil
    with Cons.hyps(1) have "v2 = []" by (cases v2) (simp_all add: same_first_def)
    with Nil show ?thesis by simp
  next
    case (Cons a as)
    with Cons.hyps(1) obtain b bs where v2: "v2 = b # bs"
      and fmt: "format_value a = format_value b"
      by (cases v2) (simp_all add: same_first_def)
    from fmt have "value_assertion a i = value_assertion b i"
      by (rule value_assertion_formatted)
    with Cons v2 IH show ?thesis by (simp cong: sum.case_cong)
  qed
qed

text \<open>
  C10: the Java type computed for a column is not put into the template. Two tables with
  the same column names, the same row count and first-row values that are formatted
  alike get the same template (or the same exception), whatever their column types.
\<close>

theorem template_independent_of_types:
  assumes names: "column_names t1 = column_names t2"
    and rows: "num_rows t1 = num_rows t2"
    and first: "map (\<lambda>c. map format_value (take 1 (col_values c))) (columns t1) =
                map (\<lambda>c. map format_value (take 1 (col_values c))) (columns t2)"
  shows "generate_junit_template file_path t1 = generate_junit_template file_path t2"
proof -
  have "map first_row_key (columns t1) =
        zip (column_names t1)
          (map (\<lambda>c. map format_value (take 1 (col_values c))) (columns t1))"
    by (simp add: first_row_key_def column_names_def zip_map_map zip_same_conv_map)
  moreover have "map first_row_key (columns t2) =
        zip (column_names t2)
          (map (\<lambda>c. map format_value (take 1 (col_values c))) (columns t2))"
    by (simp add: first_row_key_def column_names_def zip_map_map zip_same_conv_map)
  ultimately have keys: "map first_row_key (columns t1) = map first_row_key (columns t2)"
    using names first by simp
  have cols: "column_assertions t1 0 (column_names t1) = column_assertions t2 0 (column_names t2)"
    unfolding names using keys by (rule column_assertions_names_only)
  have lists: "rel_sum (=) (list_all2 same_first)
      (column_lists t1 (column_names t1)) (column_lists t2 (column_names t2))"
    unfolding names using keys by (rule column_lists_related)
  have head: "template_head tn fn t1 = template_head tn fn t2" for tn fn
    using names rows by (simp add: template_head_def)
  have firsts: "rel_sum (=) (\<lambda>vs1 vs2. first_row_assertions 0 vs1 = first_row_assertions 0 vs2)
      (column_lists t1 (column_names t1)) (column_lists t2 (column_names t2))"
    using lists by (rule sum.rel_mono_strong) (simp_all add: first_row_assertions_formatted)
  show ?thesis
    unfolding generate_junit_template_def Let_def cols head rows
    using firsts
    by (cases "column_lists t1 (column_names t1)"; cases "column_lists t2 (column_names t2)")
      (simp_all split: sum.splits)
qed

theorem template_independent_of_types_witness:
  "generate_junit_template ''data/sample_data.parquet''
     \<lparr>num_rows = 2,
      columns =
        [\<lparr>col_name = ''id'', col_type = ''int32'', col_values = [PInt 1, PInt 2]\<rparr>,
         \<lparr>col_name = ''name'', col_type = ''string'', col_values = [PStr ''Alice'', PStr ''Bob'']\<rparr>]\<rparr>
   = generate_junit_template ''data/sample_data.parquet''
     \<lparr>num_rows = 2,
      columns =
        [\<lparr>col_name = ''id'', col_type = ''int64'', col_values = [PInt 1, PInt 5]\<rparr>,
         \<lparr>col_name = ''name'', col_type = ''large_string'',
          col_values = [PStr ''Alice'', PNone]\<rparr>]\<rparr>"
  using template_independent_of_types
    [of "\<lparr>num_rows = 2,
      columns =
        [\<lparr>col_name = ''id'', col_type = ''int32'', col_values = [PInt 1, PInt 2]\<rparr>,
         \<lparr>col_name = ''name'', col_type = ''string'', col_values = [PStr ''Alice'', PStr ''Bob'']\<rparr>]\<rparr>"
      "\<lparr>num_rows = 2,
      columns =
        [\<lparr>col_name = ''id'', col_type = ''int64'', col_values = [PInt 1, PInt 5]\<rparr>,
         \<lparr>col_name = ''name'', col_type = ''large_string'',
          col_values = [PStr ''Alice'', PNone]\<rparr>]\<rparr>"
      "''data/sample_data.parquet''"]
  by (simp add: column_names_def)

section \<open>The data preview\<close>

lemma length_to_pandas: "length (to_pandas t) = num_rows t"
  by (simp add: to_pandas_def)

text \<open>
  C1, as worded, fails for a negative maximum, which \<^verbatim>\<open>int(sys.argv[2])\<close> admits
  unchecked: for 6 rows and \<open>M = -3\<close> the preview takes the second branch, where
  \<open>M div 2 = -2\<close>, and prints the first 4 and the last 4 rows; no frame holds \<open>-2\<close>
  rows.
\<close>

theorem data_preview_negative_maximum:
  "data_preview [[PInt 1], [PInt 2], [PInt 3], [PInt 4], [PInt 5], [PInt 6]] (- 3) =
     [Text ''Showing first -2 and last -2 rows:\<newline>'',
      Frame [[PInt 1], [PInt 2], [PInt 3], [PInt 4]],
      Text ''...'',
      Frame [[PInt 3], [PInt 4], [PInt 5], [PInt 6]]] \<and>
   (- 3) div 2 = (- 2 :: int)"
  by (simp add: data_preview_def df_head_def df_tail_def str_eval)

text \<open>
  C1, amended: for a frame of \<open>R\<close> rows (the frame of a loaded table has the table's row
  count) and a maximum \<open>M\<close> that is not negative, the preview prints the whole frame
  when \<open>R \<le> M\<close>; when \<open>R > M\<close> it prints a heading, the first \<open>M div 2\<close> rows, the
  line \<^verbatim>\<open>...\<close> and the last \<open>M div 2\<close> rows, each part holding exactly \<open>M div 2\<close>
  rows.
\<close>

theorem data_preview_selection:
  "0 \<le> M \<Longrightarrow>
   (int (length df) \<le> M \<longrightarrow> data_preview df M = [Frame df]) \<and>
   (M < int (length df) \<longrightarrow>
      data_preview df M =
        [Text (''Showing first '' @ str_int (M div 2) @ '' and last '' @ str_int (M div 2) @
               '' rows:\<newline>''),
         Frame (take (nat (M div 2)) df),
         Text ''...'',
         Frame (drop (length df - nat (M div 2)) df)] \<and>
      length (take (nat (M div 2)) df) = nat (M div 2) \<and>
      length (drop (length df - nat (M div 2)) df) = nat (M div 2)) \<and>
   length (to_pandas t) = num_rows t"
proof (intro conjI impI)
  assume "0 \<le> M" and "int (length df) \<le> M"
  then show "data_preview df M = [Frame df]" by (simp add: data_preview_def)
next
  assume M: "0 \<le> M" and R: "M < int (length df)"
  have half: "0 \<le> M div 2" "nat (M div 2) \<le> length df" using M R by simp_all
  have tl: "df_tail (M div 2) df = drop (length df - nat (M div 2)) df"
    using half by (simp add: df_tail_def)
  have hd: "df_head (M div 2) df = take (nat (M div 2)) df"
    using half by (simp add: df_head_def)
  from R show "data_preview df M =
        [Text (''Showing first '' @ str_int (M div 2) @ '' and last '' @ str_int (M div 2) @
               '' rows:\<newline>''),
         Frame (take (nat (M div 2)) df),
         Text ''...'',
         Frame (drop (length df - nat (M div 2)) df)]"
    by (simp add: data_preview_def hd tl)
  from half show "length (take (nat (M div 2)) df) = nat (M div 2)" by simp
  from half show "length (drop (length df - nat (M div 2)) df) = nat (M div 2)" by simp
next
  show "length (to_pandas t) = num_rows t" by (rule length_to_pandas)
qed

theorem data_preview_selection_witness:
  "data_preview [[PInt 1], [PInt 2], [PInt 3], [PInt 4], [PInt 5], [PInt 6]] 4 =
     [Text ''Showing first 2 and last 2 rows:\<newline>'',
      Frame [[PInt 1], [PInt 2]],
      Text ''...'',
      Frame [[PInt 5], [PInt 6]]] \<and>
   data_preview [[PInt 1], [PInt 2]] 20 = [Frame [[PInt 1], [PInt 2]]]"
  using data_preview_selection
      [where M = 4 and df = "[[PInt 1], [PInt 2], [PInt 3], [PInt 4], [PInt 5], [PInt 6]]"]
    data_preview_selection [where M = 20 and df = "[[PInt 1], [PInt 2]]"]
  by (simp add: str_eval)

section \<open>The sample lines of a column\<close>

text \<open>
  In a table whose column names are distinct, as the library builds it from a file,
  every lookup finds its column, and the loop prints the summary of every column, in
  schema order.
\<close>

lemma filter_distinct_name:
  "distinct (map col_name cs) \<Longrightarrow> c \<in> set cs \<Longrightarrow>
   filter (\<lambda>c'. col_name c' = col_name c) cs = [c]"
proof (induction cs)
  case Nil
  then show ?case by simp
next
  case (Cons a cs)
  show ?case
  proof (cases "a = c")
    case True
    with Cons.prems have "col_name c \<notin> col_name ` set cs" by simp
    then have "filter (\<lambda>c'. col_name c' = col_name c) cs = []"
      by (force simp: filter_empty_conv image_iff)
    with True show ?thesis by simp
  next
    case False
    with Cons.prems have c: "c \<in> set cs" and d: "distinct (map col_name cs)" by simp_all
    from Cons.prems c have "col_name a \<noteq> col_name c" by auto
    with Cons.IH [OF d c] show ?thesis by simp
  qed
qed

lemma table_column_distinct:
  "distinct (column_names t) \<Longrightarrow> c \<in> set (columns t) \<Longrightarrow>
   table_column t (col_name c) = Inr c"
  by (simp add: table_column_def column_names_def filter_distinct_name)

lemma column_details_summaries:
  assumes "distinct (column_names t)" and "set cs \<subseteq> set (columns t)"
  shows "column_details t i (map col_name cs) =
    (concat (map (\<lambda>(k, c). column_summary k (col_name c) c) (enumerate i cs)), None)"
  using assms(2)
proof (induction cs arbitrary: i)
  case Nil
  show ?case by simp
next
  case (Cons c cs)
  then have "table_column t (col_name c) = Inr c"
    using assms(1) by (simp add: table_column_distinct)
  moreover from Cons have "column_details t (Suc i) (map col_name cs) =
    (concat (map (\<lambda>(k, c). column_summary k (col_name c) c) (enumerate (Suc i) cs)), None)"
    by simp
  ultimately show ?case by simp
qed

lemma column_details_all_columns:
  "distinct (column_names t) \<Longrightarrow>
   column_details t 0 (column_names t) =
     (concat (map (\<lambda>(k, c). column_summary k (col_name c) c) (enumerate 0 (columns t))), None)"
  using column_details_summaries [of t "columns t" 0] by (simp add: column_names_def)

text \<open>
  C5: the summary of a column holds a \<^verbatim>\<open>Last 5 values\<close> line exactly when the column
  holds more than 10 values; the line then shows the values from position \<open>length - 5\<close>
  on, which are 5 values and the end of the column, in the column's order.
\<close>

theorem last_values_line:
  "[vs. Last_values vs \<leftarrow> column_summary i name col] =
     (if 10 < length (col_values col)
      then [drop (length (col_values col) - 5) (col_values col)] else []) \<and>
   (10 < length (col_values col) \<longrightarrow>
      length (drop (length (col_values col) - 5) (col_values col)) = 5) \<and>
   suffix (drop (length (col_values col) - 5) (col_values col)) (col_values col)"
  by (auto simp: column_summary_def Let_def suffix_drop)

theorem last_values_line_witness:
  "[vs. Last_values vs \<leftarrow> column_summary 0 ''id''
      \<lparr>col_name = ''id'', col_type = ''int64'',
       col_values = map PInt [1, 2, 3, 4, 5, 6, 7, 8, 9, 10, 11]\<rparr>] =
     [map PInt [7, 8, 9, 10, 11]] \<and>
   [vs. Last_values vs \<leftarrow> column_summary 0 ''id''
      \<lparr>col_name = ''id'', col_type = ''int64'',
       col_values = map PInt [1, 2, 3, 4, 5, 6, 7, 8, 9, 10]\<rparr>] = []"
  using last_values_line [of 0 "''id''" "\<lparr>col_name = ''id'', col_type = ''int64'',
       col_values = map PInt [1, 2, 3, 4, 5, 6, 7, 8, 9, 10, 11]\<rparr>"]
    last_values_line [of 0 "''id''" "\<lparr>col_name = ''id'', col_type = ''int64'',
       col_values = map PInt [1, 2, 3, 4, 5, 6, 7, 8, 9, 10]\<rparr>"]
  by simp

text \<open>
  C6, as worded, fails on a column without values (a table of no rows): the
  sample lines are printed under the test \<^verbatim>\<open>len(values) > 0\<close>, so its summary has
  no \<^verbatim>\<open>First ... values\<close> line.
\<close>

theorem first_values_line_empty_column:
  "[(n, vs). First_values n vs \<leftarrow> column_summary 0 ''id''
      \<lparr>col_name = ''id'', col_type = ''int64'', col_values = []\<rparr>] = []"
  by (simp add: column_summary_def)

text \<open>
  C6, amended: for every column that holds at least one value the summary has exactly
  one \<^verbatim>\<open>First n values\<close> line, showing the first 5 values of the column (all of them
  when it holds fewer than 5, \<open>n\<close> being their number); for a column that holds no
  value it has none.
\<close>

theorem first_values_line:
  "[(n, vs). First_values n vs \<leftarrow> column_summary i name col] =
     (if col_values col = [] then []
      else [(min 5 (length (col_values col)), take 5 (col_values col))])"
  by (auto simp: column_summary_def Let_def)

theorem first_values_line_witness:
  "[(n, vs). First_values n vs \<leftarrow> column_summary 0 ''id''
      \<lparr>col_name = ''id'', col_type = ''int64'', col_values = map PInt [1, 2, 3, 4, 5, 6, 7]\<rparr>] =
     [(5, map PInt [1, 2, 3, 4, 5])] \<and>
   [(n, vs). First_values n vs \<leftarrow> column_summary 1 ''name''
      \<lparr>col_name = ''name'', col_type = ''string'', col_values = [PStr ''Alice'', PNone]\<rparr>] =
     [(2, [PStr ''Alice'', PNone])]"
  using first_values_line [of 0 "''id''" "\<lparr>col_name = ''id'', col_type = ''int64'',
        col_values = map PInt [1, 2, 3, 4, 5, 6, 7]\<rparr>"]
    first_values_line [of 1 "''name''" "\<lparr>col_name = ''name'', col_type = ''string'',
        col_values = [PStr ''Alice'', PNone]\<rparr>"]
  by simp

section \<open>Exit status\<close>



text \<open>
  C9: without the file-path argument (\<^verbatim>\<open>len(sys.argv) < 2\<close>) the program prints the
  usage documentation, its docstring, and exits with status 1.
\<close>

theorem main_missing_argument:
  "length argv < 2 \<Longrightarrow> main to_int fs argv = ([Text doc], 1)"
  by (simp add: main_def)

theorem main_missing_argument_witness:
  "main (\<lambda>s. Inl (ValueError s)) (\<lambda>p. Inl (FileNotFoundError p)) [''pyarrow_inspect.py'']
     = ([Text doc], 1)"
  using main_missing_argument [of "[''pyarrow_inspect.py'']"] by simp



end
